theory Spec2Isabelle
  imports Complex_Main "HOL-Library.Sublist" "HOL-Library.AList" "HOL-Library.Multiset"
begin

section \<open>Python values used by \<open>newspaper/article.py\<close>\<close>

text \<open>
  Python \<open>str\<close> is modelled as \<open>string\<close>, Python \<open>int\<close> as \<open>int\<close>, \<open>Optional[T]\<close> as
  \<open>T option\<close>. An exception is a value of \<open>py_error\<close>; a method that can raise returns
  \<open>py_error + result\<close>.
\<close>

datatype py_error =
    ArticleException string
  | AttributeError string
  | KeyError string

text \<open>\<open>xs[:n]\<close>: a negative bound counts from the end.\<close>

definition py_slice_to :: "int \<Rightarrow> 'a list \<Rightarrow> 'a list" where
  "py_slice_to n xs =
     (if 0 \<le> n then take (nat n) xs else take (nat (int (length xs) + n)) xs)"

text \<open>\<open>needle in haystack\<close> on strings: a contiguous occurrence.\<close>

fun str_contains :: "string \<Rightarrow> string \<Rightarrow> bool" where
  "str_contains needle [] = (needle = [])"
| "str_contains needle (c # cs) = (prefix needle (c # cs) \<or> str_contains needle cs)"

text \<open>\<open>s.split(sep)\<close> for a one-character separator: the pieces between the separators,
  empty pieces kept, so the empty string splits into one empty piece.\<close>

fun py_split :: "char \<Rightarrow> string \<Rightarrow> string list" where
  "py_split sep [] = [[]]"
| "py_split sep (c # cs) =
     (if c = sep then [] # py_split sep cs
      else (case py_split sep cs of
              [] \<Rightarrow> [[c]]
            | p # ps \<Rightarrow> (c # p) # ps))"

text \<open>\<open>str(n)\<close> for an integer, as the f-strings of the module format it.\<close>

definition digit_char :: "nat \<Rightarrow> char" where
  "digit_char d = char_of (48 + d)"

fun str_nat :: "nat \<Rightarrow> string" where
  "str_nat n = (if n < 10 then [digit_char n] else str_nat (n div 10) @ [digit_char (n mod 10)])"

definition str_int :: "int \<Rightarrow> string" where
  "str_int i = (if i < 0 then CHR ''-'' # str_nat (nat (- i)) else str_nat (nat i))"

text \<open>\<open>str(x)\<close> of an optional string inside an f-string: \<open>None\<close> prints as \<open>None\<close>.\<close>

definition str_opt :: "string option \<Rightarrow> string" where
  "str_opt v = (case v of None \<Rightarrow> ''None'' | Some s \<Rightarrow> s)"

text \<open>Truth value of an optional string: \<open>None\<close> and the empty string are false.\<close>

definition truthy :: "string option \<Rightarrow> bool" where
  "truthy v = (case v of None \<Rightarrow> False | Some s \<Rightarrow> s \<noteq> [])"

section \<open>The DOM\<close>

text \<open>
  An lxml element: its tag, its attributes in order and its children in order. A handle
  on a node of a tree is the node itself (a subtree).
\<close>

datatype node = Node (tag: string) (attribs: "(string \<times> string) list") (children: "node list")

text \<open>\<open>node.get(name)\<close>.\<close>

definition node_get :: "node \<Rightarrow> string \<Rightarrow> string option" where
  "node_get n name = map_of (attribs n) name"

text \<open>The elements of a tree in document order (the element itself first).\<close>

fun iter_nodes :: "node \<Rightarrow> node list" where
  "iter_nodes (Node t a cs) = Node t a cs # concat (map iter_nodes cs)"

section \<open>Configuration and the Article\<close>

datatype ArticleDownloadState = NOT_STARTED | FAILED_RESPONSE | SUCCESS

text \<open>The fields of \<open>Configuration\<close> that \<open>article.py\<close> reads or writes.\<close>

record Configuration =
  follow_meta_refresh :: bool
  max_title :: int
  max_text :: int
  max_summary :: int
  max_keywords :: int
  max_authors :: int
  max_summary_sent :: int
  min_word_count :: int
  min_sent_count :: int
  language :: string
  use_meta_language :: bool

text \<open>The dictionary returned by the metadata extractor, one field per key read.\<close>

record metadata =
  md_language :: string
  md_type :: "string option"
  md_site_name :: string
  md_description :: string
  md_canonical_link :: string
  md_keywords :: "string list"
  md_tags :: "string set"
  md_data :: "(string \<times> string) list"

text \<open>
  The Article. \<open>title\<close>, \<open>text_prop\<close> (the property \<open>text\<close>), \<open>summary\<close> and \<open>html\<close> are the
  values behind the properties (\<open>_title\<close>, \<open>_text\<close>, \<open>_summary\<close>, \<open>_html\<close>);
  \<open>keywords_list\<close> is the attribute \<open>keywords\<close>. \<open>extractor_meta\<close> is the part of the
  extractor's state that the Article reads back
  (\<open>extractor.metadata_extractor.meta_data\<close>).
\<close>

record Article =
  config :: Configuration
  extractor_meta :: metadata
  source_url :: string
  url :: string
  original_url :: string
  title :: string
  read_more_link :: string
  top_image :: string
  meta_img :: string
  images :: "string list"
  movies :: "string list"
  text_prop :: string
  text_cleaned :: string
  keywords_list :: "string list"
  keyword_scores :: "(string \<times> real) list"
  meta_keywords :: "string list"
  tags :: "string set"
  authors :: "string list"
  publish_date :: "string option"
  summary :: string
  html :: string
  article_html :: string
  is_parsed :: bool
  download_state :: ArticleDownloadState
  download_exception_msg :: "string option"
  history :: "string list"
  meta_description :: string
  meta_lang :: string
  meta_favicon :: string
  meta_site_name :: string
  meta_data :: "(string \<times> string) list"
  canonical_link :: string
  top_node :: "node option"
  clean_top_node :: "node option"
  top_node_complemented :: "node option"
  doc :: "node option"
  clean_doc :: "node option"

subsection \<open>The property setters\<close>

text \<open>\<open>value[: self.config.max_title] if value else ""\<close>, and the same for \<open>text\<close> and
  \<open>summary\<close>.\<close>

definition set_title :: "string \<Rightarrow> Article \<Rightarrow> Article" where
  "set_title v a = a\<lparr>title := (if v \<noteq> [] then py_slice_to (max_title (config a)) v else [])\<rparr>"

definition set_text :: "string \<Rightarrow> Article \<Rightarrow> Article" where
  "set_text v a = a\<lparr>text_prop := (if v \<noteq> [] then py_slice_to (max_text (config a)) v else [])\<rparr>"

definition set_summary :: "string \<Rightarrow> Article \<Rightarrow> Article" where
  "set_summary v a =
     a\<lparr>summary := (if v \<noteq> [] then py_slice_to (max_summary (config a)) v else [])\<rparr>"


text \<open>The \<open>html\<close> setter: the download state first, then the value or the empty string.\<close>

definition set_html :: "string option \<Rightarrow> Article \<Rightarrow> Article" where
  "set_html v a =
     (let a1 = a\<lparr>download_state := SUCCESS\<rparr>
      in case v of
           None \<Rightarrow> a1\<lparr>html := []\<rparr>
         | Some s \<Rightarrow> if s \<noteq> [] then a1\<lparr>html := s\<rparr> else a1\<lparr>html := []\<rparr>)"

section \<open>The collaborators\<close>

text \<open>
  \<open>initial_meta\<close> is the metadata a fresh extractor holds before any document was
  parsed. The modules \<open>network\<close>, \<open>urls\<close>, \<open>parsers\<close>, \<open>utils\<close>, \<open>nlp\<close>, the extractor, the cleaner,
  the formatter and \<open>readability\<close> are outside \<open>article.py\<close>. Each function the Article
  calls is a field of the environment; a theorem holds for every environment.
  \<open>get_html_status\<close> returns \<open>Inl msg\<close> where the transport raises a
  \<open>RequestException\<close> whose text is \<open>msg\<close>; \<open>read_file\<close> returns \<open>Inl strerror\<close> where
  opening or reading the file raises \<open>OSError\<close>.
\<close>

record images_result =
  ir_meta_image :: string
  ir_top_image :: string
  ir_images :: "string list"
  ir_favicon :: string

record Env =
  initial_meta :: metadata
  get_html_status :: "string \<Rightarrow> Configuration \<Rightarrow> string + (string \<times> int \<times> string list)"
  get_html :: "string \<Rightarrow> string"
  read_file :: "string \<Rightarrow> string option + string"
  urlparse_scheme :: "string \<Rightarrow> string"
  urlparse_path :: "string \<Rightarrow> string"
  get_scheme :: "string \<Rightarrow> string option"
  get_domain :: "string \<Rightarrow> string"
  prepare_url :: "string \<Rightarrow> string \<Rightarrow> string"
  extract_meta_refresh :: "string \<Rightarrow> string option"
  fromstring :: "string \<Rightarrow> node option"
  xpath :: "node \<Rightarrow> string \<Rightarrow> node list"
  get_title :: "node \<Rightarrow> string"
  get_authors :: "node \<Rightarrow> string list"
  get_metadata :: "string \<Rightarrow> node \<Rightarrow> metadata"
  get_available_languages :: "string list"
  get_publishing_date :: "string \<Rightarrow> node \<Rightarrow> string option"
  readability_summary :: "string \<Rightarrow> string"
  clean :: "Configuration \<Rightarrow> node option \<Rightarrow> node option"
  calculate_best_node :: "Configuration \<Rightarrow> node option \<Rightarrow> node option \<times> node option"
  get_videos :: "node option \<Rightarrow> node option \<Rightarrow> string option list"
  parse_images :: "string \<Rightarrow> node option \<Rightarrow> node option \<Rightarrow> images_result"
  get_formatted :: "Configuration \<Rightarrow> node option \<Rightarrow> string \<Rightarrow> string \<times> string"
  nlp_keywords :: "string \<Rightarrow> string \<Rightarrow> int \<Rightarrow> (string \<times> real) list"
  nlp_summarize :: "string \<Rightarrow> string \<Rightarrow> string \<Rightarrow> int \<Rightarrow> string list"

text \<open>The requests an Article sends, in the order it sends them.\<close>

datatype request = GetHtmlStatus string | GetHtml string | ReadFile string

type_synonym world = "Article \<times> request list"

section \<open>The constructor\<close>

text \<open>The attributes as \<open>__init__\<close> assigns them, before the \<open>title\<close> setter runs.\<close>

definition fresh_article :: "Env \<Rightarrow> Configuration \<Rightarrow> string \<Rightarrow> string \<Rightarrow> string \<Rightarrow> string
    \<Rightarrow> Article" where
  "fresh_article E cfg src u title_arg read_more_arg =
     \<lparr> config = cfg, extractor_meta = initial_meta E, source_url = src, url = u,
       original_url = u, title = title_arg, read_more_link = read_more_arg,
       top_image = [], meta_img = [], images = [], movies = [], text_prop = [],
       text_cleaned = [], keywords_list = [], keyword_scores = [],
       meta_keywords = [], tags = {}, authors = [], publish_date = None,
       summary = [], html = [], article_html = [], is_parsed = False,
       download_state = NOT_STARTED, download_exception_msg = None,
       history = [], meta_description = [], meta_lang = [], meta_favicon = [],
       meta_site_name = [], meta_data = [], canonical_link = [],
       top_node = None, clean_top_node = None, top_node_complemented = None,
       doc = None, clean_doc = None \<rparr>"


section \<open>The download resolver\<close>

definition parse_scheme_file :: "Env \<Rightarrow> string \<Rightarrow> world \<Rightarrow> string option \<times> world" where
  "parse_scheme_file E path w =
     (case w of (a, reqs) \<Rightarrow>
        (case read_file E path of
           Inr content \<Rightarrow> (Some content, (a, reqs @ [ReadFile path]))
         | Inl strerror \<Rightarrow>
             (None, (a\<lparr>download_state := FAILED_RESPONSE,
                       download_exception_msg := strerror\<rparr>, reqs @ [ReadFile path]))))"

definition detect_protection :: "string \<Rightarrow> string option" where
  "detect_protection h =
     (if str_contains ''cloudflare'' h then Some ''Cloudflare''
      else if str_contains ''/cdn-cgi/challenge-platform/h/b/orchestrate/chl_page'' h
        then Some ''Cloudflare''
      else if str_contains ''cloud-flare'' h then Some ''Cloudflare''
      else if str_contains ''CloudFront'' h then Some ''CloudFront''
      else if str_contains ''perimeterx'' h then Some ''PerimeterX''
      else None)"

text \<open>
  \<open>_parse_scheme_http(url=None)\<close>: the request goes to \<open>url or self.url\<close>; the messages
  format the parameter \<open>url\<close> itself.
\<close>

definition parse_scheme_http :: "Env \<Rightarrow> string option \<Rightarrow> world \<Rightarrow> string option \<times> world" where
  "parse_scheme_http E url_arg w =
     (case w of (a, reqs) \<Rightarrow>
        (let target = (if truthy url_arg then str_opt url_arg else url a);
             reqs1 = reqs @ [GetHtmlStatus target]
         in case get_html_status E target (config a) of
              Inl e \<Rightarrow>
                (None, (a\<lparr>download_state := FAILED_RESPONSE,
                          download_exception_msg := Some e\<rparr>, reqs1))
            | Inr (h, status_code, hist) \<Rightarrow>
                (let a1 = a\<lparr>history := hist\<rparr>
                 in if 400 \<le> status_code then
                      (None,
                       (a1\<lparr>download_state := FAILED_RESPONSE,
                           download_exception_msg :=
                             (case detect_protection h of
                                Some protection \<Rightarrow>
                                  Some (''Website protected with '' @ protection
                                        @ '', url: '' @ str_opt url_arg)
                              | None \<Rightarrow>
                                  Some (''Status code '' @ str_int status_code
                                        @ '' for url '' @ str_opt url_arg))\<rparr>,
                        reqs1))
                    else (Some h, (a1, reqs1)))))"

text \<open>
  The loop over \<open>doc.xpath(self.read_more_link)\<close>: a node whose \<open>href\<close> is missing or
  empty is passed over; the first node with an \<open>href\<close> is fetched and ends the loop.
\<close>

fun read_more_loop :: "Env \<Rightarrow> node list \<Rightarrow> string \<Rightarrow> world \<Rightarrow> string \<times> world" where
  "read_more_loop E [] h w = (h, w)"
| "read_more_loop E (read_more_node # rest) h w =
     (if truthy (node_get read_more_node ''href'') then
        (let new_url = prepare_url E (str_opt (node_get read_more_node ''href'')) (url (fst w))
         in case parse_scheme_http E (Some new_url) w of
              (Some h', (a', reqs')) \<Rightarrow> (h', (a'\<lparr>url := new_url\<rparr>, reqs'))
            | (None, w') \<Rightarrow> (h, w'))
      else read_more_loop E rest h w)"

text \<open>The first block of \<open>download\<close>: the HTML of the caller, of the file or of the
  network.\<close>

definition initial_html :: "Env \<Rightarrow> string option \<Rightarrow> world \<Rightarrow> string option \<times> world" where
  "initial_html E input_html w =
     (case input_html of
        None \<Rightarrow>
          (if urlparse_scheme E (url (fst w)) = ''file''
           then parse_scheme_file E (urlparse_path E (url (fst w))) w
           else parse_scheme_http E None w)
      | Some h \<Rightarrow> (Some h, w))"

text \<open>The last block of \<open>download\<close>: the read-more link, then the assignments to \<open>html\<close>
  and \<open>title\<close>. \<open>parsers.fromstring\<close> returning \<open>None\<close> makes \<open>doc.xpath\<close> raise.\<close>

definition download_finish :: "string option \<Rightarrow> string \<Rightarrow> world \<Rightarrow> world" where
  "download_finish title_arg h w =
     (case w of (a, reqs) \<Rightarrow>
        (let a1 = set_html (Some h) a
         in ((case title_arg of None \<Rightarrow> a1 | Some t \<Rightarrow> set_title t a1), reqs)))"

definition download_read_more :: "Env \<Rightarrow> string option \<Rightarrow> bool \<Rightarrow> string \<Rightarrow> world
    \<Rightarrow> py_error + world" where
  "download_read_more E title_arg ignore_read_more h w =
     (if \<not> ignore_read_more \<and> read_more_link (fst w) \<noteq> [] then
        (case fromstring E h of
           None \<Rightarrow> Inl (AttributeError ''NoneType object has no attribute xpath'')
         | Some d \<Rightarrow>
             (case read_more_loop E (xpath E d (read_more_link (fst w))) h w of
                (h', w') \<Rightarrow> Inr (download_finish title_arg h' w')))
      else Inr (download_finish title_arg h w))"

function download :: "Env \<Rightarrow> string option \<Rightarrow> string option \<Rightarrow> int \<Rightarrow> bool \<Rightarrow> world
    \<Rightarrow> py_error + world" where
  "download E input_html title_arg recursion_counter ignore_read_more w =
     (case initial_html E input_html w of
        (None, w1) \<Rightarrow> Inr w1
      | (Some h, w1) \<Rightarrow>
          (if follow_meta_refresh (config (fst w1)) then
             (case extract_meta_refresh E h of
                Some meta_refresh_url \<Rightarrow>
                  (if meta_refresh_url \<noteq> [] \<and> recursion_counter < 1 then
                     download E (Some (get_html E meta_refresh_url)) None
                       (recursion_counter + 1) False
                       (fst w1, snd w1 @ [GetHtml meta_refresh_url])
                   else download_read_more E title_arg ignore_read_more h w1)
              | None \<Rightarrow> download_read_more E title_arg ignore_read_more h w1)
           else download_read_more E title_arg ignore_read_more h w1))"
  by pat_completeness auto
termination
  by (relation "measure (\<lambda>(E, input_html, title_arg, recursion_counter, ignore_read_more, w).
        nat (1 - recursion_counter))") auto

section \<open>The parse pipeline\<close>

definition throw_if_not_downloaded_verbose :: "Article \<Rightarrow> py_error + unit" where
  "throw_if_not_downloaded_verbose a =
     (case download_state a of
        NOT_STARTED \<Rightarrow> Inl (ArticleException ''You must download() an article first!'')
      | FAILED_RESPONSE \<Rightarrow>
          Inl (ArticleException (''Article download() failed with ''
                 @ str_opt (download_exception_msg a) @ '' on URL '' @ url a))
      | SUCCESS \<Rightarrow> Inr ())"

definition throw_if_not_parsed_verbose :: "Article \<Rightarrow> py_error + unit" where
  "throw_if_not_parsed_verbose a =
     (if \<not> is_parsed a then Inl (ArticleException ''You must parse() an article first!'')
      else Inr ())"

text \<open>\<open>set_movies\<close>: a video object is given by its \<open>src\<close>; an object that is \<open>None\<close> or
  whose \<open>src\<close> is \<open>None\<close> or empty is dropped.\<close>

definition set_movies :: "string option list \<Rightarrow> Article \<Rightarrow> Article" where
  "set_movies movie_objects a =
     a\<lparr>movies := map str_opt (filter truthy movie_objects)\<rparr>"

definition fetch_images :: "Env \<Rightarrow> Article \<Rightarrow> Article" where
  "fetch_images E a =
     (let r = parse_images E (url a) (clean_doc a) (clean_top_node a)
      in a\<lparr>meta_img := ir_meta_image r, top_image := ir_top_image r,
           images := ir_images r, meta_favicon := ir_favicon r\<rparr>)"

text \<open>The metadata step of \<open>parse\<close> (the assignments from \<open>metadata\<close>).\<close>

definition parse_metadata :: "Env \<Rightarrow> metadata \<Rightarrow> Article \<Rightarrow> Article" where
  "parse_metadata E md a =
     (let a1 =
        (if md_language md \<in> set (get_available_languages E) then
           (let a' = a\<lparr>meta_lang := md_language md\<rparr>
            in if use_meta_language (config a')
               then a'\<lparr>config := (config a')\<lparr>language := md_language md\<rparr>\<rparr>
               else a')
         else a)
      in a1\<lparr>extractor_meta := md,
            meta_site_name := md_site_name md,
            meta_description := md_description md,
            canonical_link := md_canonical_link md,
            meta_keywords := md_keywords md,
            tags := md_tags md,
            meta_data := md_data md\<rparr>)"

text \<open>The body step of \<open>parse\<close> (the block under \<open>if self.top_node is not None\<close>).\<close>

definition parse_body :: "Env \<Rightarrow> string \<Rightarrow> Article \<Rightarrow> Article" where
  "parse_body E title_local a =
     (if top_node a \<noteq> None then
        (let a1 = a\<lparr>top_node_complemented := clean E (config a) (top_node_complemented a)\<rparr>;
             (text_local, article_html_local) =
               get_formatted E (config a1) (top_node_complemented a1) title_local;
             a2 = set_text text_local (a1\<lparr>article_html := article_html_local\<rparr>);
             text_clean = fst (get_formatted E (config a2) (clean_top_node a2) title_local)
         in a2\<lparr>text_cleaned :=
               (if text_clean \<noteq> [] then py_slice_to (max_text (config a2)) text_clean
                else [])\<rparr>)
      else a)"

definition parse :: "Env \<Rightarrow> Article \<Rightarrow> py_error + Article" where
  "parse E a =
     (case throw_if_not_downloaded_verbose a of
        Inl e \<Rightarrow> Inl e
      | Inr _ \<Rightarrow>
          (let d = fromstring E (html a);
               a1 = a\<lparr>doc := d, clean_doc := d\<rparr>
           in case d of
                None \<Rightarrow> Inr (a1\<lparr>is_parsed := True\<rparr>)
              | Some d0 \<Rightarrow>
                  (let title_local = get_title E d0;
                       a2 = set_title title_local a1;
                       a3 = a2\<lparr>authors :=
                              py_slice_to (max_authors (config a2)) (get_authors E d0)\<rparr>;
                       a4 = parse_metadata E (get_metadata E (url a3) d0) a3;
                       a5 = a4\<lparr>publish_date := get_publishing_date E (url a4) d0\<rparr>;
                       a6 = a5\<lparr>doc := fromstring E (readability_summary E (html a5))\<rparr>;
                       a7 = a6\<lparr>clean_doc := clean E (config a6) (clean_doc a6)\<rparr>;
                       best = calculate_best_node E (config a7) (doc a7);
                       a8 = a7\<lparr>top_node := fst best, top_node_complemented := snd best\<rparr>;
                       a9 = a8\<lparr>clean_top_node :=
                              fst (calculate_best_node E (config a8) (clean_doc a8))\<rparr>;
                       a10 = set_movies (get_videos E (doc a9) (top_node a9)) a9;
                       a11 = fetch_images E a10;
                       a12 = parse_body E title_local a11
                   in Inr (a12\<lparr>is_parsed := True\<rparr>))))"

section \<open>The validity classifier\<close>

definition safe_urls :: "string list" where
  "safe_urls =
     [''/video'', ''/slide'', ''/gallery'', ''/powerpoint'', ''/fashion'', ''/glamour'',
      ''/cloth'']"

definition is_media_news :: "Article \<Rightarrow> bool" where
  "is_media_news a = list_ex (\<lambda>s. str_contains s (url a)) safe_urls"

definition is_valid_body :: "Article \<Rightarrow> py_error + bool" where
  "is_valid_body a =
     (if \<not> is_parsed a then
        Inl (ArticleException ''must parse article before checking if it's body is valid!'')
      else
        (let meta_type = md_type (extractor_meta a);
             wordcount = py_split CHR '' '' (text_prop a);
             sentcount = py_split CHR ''.'' (text_prop a)
         in if meta_type = Some ''article''
               \<and> min_word_count (config a) < int (length wordcount) then Inr True
            else if \<not> is_media_news a \<and> text_prop a = [] then Inr False
            else if length (py_split CHR '' '' (title a)) < 2 then Inr False
            else if int (length wordcount) < min_word_count (config a) then Inr False
            else if int (length sentcount) < min_sent_count (config a) then Inr False
            else if html a = [] then Inr False
            else Inr True))"

section \<open>The NLP postprocessor\<close>

text \<open>
  A dictionary of scores is an association list in insertion order with distinct keys.
  A score is a real number: the rounding of Python's floats is not modelled.
  \<open>keywords[k] += v; keywords[k] /= 2\<close> and \<open>keywords[k] = v\<close> keep the place of a key
  that is present and append a new key.
\<close>

definition merge_step :: "string \<times> real \<Rightarrow> (string \<times> real) list \<Rightarrow> (string \<times> real) list" where
  "merge_step kv kws =
     (case map_of kws (fst kv) of
        Some s \<Rightarrow> AList.update (fst kv) ((s + snd kv) / 2) kws
      | None \<Rightarrow> AList.update (fst kv) (snd kv) kws)"

definition merge_keywords :: "(string \<times> real) list \<Rightarrow> (string \<times> real) list
    \<Rightarrow> (string \<times> real) list" where
  "merge_keywords text_kws title_kws = fold merge_step title_kws text_kws"

text \<open>\<open>sorted(items, key=lambda x: x[1], reverse=True)\<close>: descending by score, entries
  of equal score in their original order.\<close>

definition sorted_desc :: "(string \<times> real) list \<Rightarrow> (string \<times> real) list" where
  "sorted_desc kws = sort_key (\<lambda>x. - snd x) kws"

definition top_keywords :: "Configuration \<Rightarrow> (string \<times> real) list \<Rightarrow> (string \<times> real) list
    \<Rightarrow> (string \<times> real) list" where
  "top_keywords cfg text_kws title_kws =
     py_slice_to (max_keywords cfg) (sorted_desc (merge_keywords text_kws title_kws))"

text \<open>\<open>"\n".join(sentences)\<close>.\<close>

fun join_lines :: "string list \<Rightarrow> string" where
  "join_lines [] = []"
| "join_lines [s] = s"
| "join_lines (s # t # ts) = s @ [CHR 0x0A] @ join_lines (t # ts)"

definition nlp :: "Env \<Rightarrow> Article \<Rightarrow> py_error + Article" where
  "nlp E a =
     (case throw_if_not_downloaded_verbose a of
        Inl e \<Rightarrow> Inl e
      | Inr _ \<Rightarrow>
          (case throw_if_not_parsed_verbose a of
             Inl e \<Rightarrow> Inl e
           | Inr _ \<Rightarrow>
               (let stopwords = language (config a);
                    kws = top_keywords (config a)
                            (nlp_keywords E (text_prop a) stopwords (max_keywords (config a)))
                            (nlp_keywords E (title a) stopwords (max_keywords (config a)));
                    a1 = a\<lparr>keywords_list := map fst kws, keyword_scores := kws\<rparr>;
                    summary_sents = nlp_summarize E (title a1) (text_prop a1) stopwords
                                      (max_summary_sent (config a1))
                in Inr (set_summary (join_lines summary_sents) a1))))"

section \<open>Restoring a snapshot\<close>

text \<open>
  The state dictionary that \<open>__getstate__\<close> returns: the attributes of the Article (the
  handles on trees and the extractor are popped, so \<open>__setstate__\<close> never reads them from
  \<open>sn_fields\<close>), the key \<open>__parsed_state\<close> and, in the parsed state, the key \<open>_doc_html\<close>.
  A key that is absent is \<open>None\<close>, and reading it raises \<open>KeyError\<close>.
\<close>

record Snapshot =
  sn_fields :: Article
  sn_parsed_state :: "bool option"
  sn_doc_html :: "string option"

text \<open>
  Modelled from the spec: \<open>parsers.get_elements_by_attribs\<close> is not part of
  \<open>article.py\<close>; the spec gives it as \<open>findByAttribute(Tree, name, value) -> [Node]\<close>, the
  nodes of the tree that carry the attribute with that value, in document order.
\<close>

definition get_elements_by_attribs :: "node \<Rightarrow> string \<Rightarrow> string \<Rightarrow> node list" where
  "get_elements_by_attribs t name v = filter (\<lambda>n. node_get n name = Some v) (iter_nodes t)"

text \<open>\<open>if nodes: field = nodes[0]\<close>.\<close>

definition first_node :: "node list \<Rightarrow> node option" where
  "first_node nodes = (case nodes of [] \<Rightarrow> None | n # _ \<Rightarrow> Some n)"

definition setstate :: "Env \<Rightarrow> Snapshot \<Rightarrow> py_error + Article" where
  "setstate E state =
     (let a0 = (sn_fields state)\<lparr>extractor_meta := initial_meta E, top_node := None,
                  clean_top_node := None, top_node_complemented := None, doc := None,
                  clean_doc := None\<rparr>
      in case sn_parsed_state state of
           None \<Rightarrow> Inl (KeyError ''__parsed_state'')
         | Some False \<Rightarrow> Inr a0
         | Some True \<Rightarrow>
             (case sn_doc_html state of
                None \<Rightarrow> Inl (KeyError ''_doc_html'')
              | Some doc_html \<Rightarrow>
                  (case fromstring E doc_html of
                     None \<Rightarrow> Inl (AttributeError ''NoneType object has no attribute xpath'')
                   | Some t \<Rightarrow>
                       (let a1 = a0\<lparr>doc := Some t\<rparr>;
                            a2 = (case first_node
                                         (get_elements_by_attribs t ''__newspaper_top_node'' ''xxx'') of
                                    None \<Rightarrow> a1
                                  | Some n \<Rightarrow> a1\<lparr>top_node := Some n\<rparr>);
                            a3 = (case first_node
                                         (get_elements_by_attribs t
                                            ''__newspaper_top_node_complemented'' ''xxx'') of
                                    None \<Rightarrow> a2
                                  | Some n \<Rightarrow> a2\<lparr>top_node_complemented := Some n\<rparr>)
                        in Inr a3))))"

section \<open>Sequences of calls\<close>




text \<open>A call of one of the three pipeline methods, with its arguments.\<close>

datatype call =
    Download "string option" "string option" int bool
  | Parse
  | Nlp

fun run_call :: "Env \<Rightarrow> call \<Rightarrow> world \<Rightarrow> py_error + world" where
  "run_call E (Download input_html title_arg recursion_counter ignore_read_more) w =
     download E input_html title_arg recursion_counter ignore_read_more w"
| "run_call E Parse w =
     (case parse E (fst w) of Inl e \<Rightarrow> Inl e | Inr a \<Rightarrow> Inr (a, snd w))"
| "run_call E Nlp w =
     (case nlp E (fst w) of Inl e \<Rightarrow> Inl e | Inr a \<Rightarrow> Inr (a, snd w))"

text \<open>A sequence of calls; an exception ends it.\<close>

fun run_calls :: "Env \<Rightarrow> call list \<Rightarrow> world \<Rightarrow> py_error + world" where
  "run_calls E [] w = Inr w"
| "run_calls E (c # cs) w =
     (case run_call E c w of Inl e \<Rightarrow> Inl e | Inr w' \<Rightarrow> run_calls E cs w')"

section \<open>Example values\<close>

text \<open>A small configuration, a small web and an Article on it, for concrete runs.\<close>

definition example_config :: Configuration where
  "example_config =
     \<lparr> follow_meta_refresh = True, max_title = 5, max_text = 8, max_summary = 6,
       max_keywords = 2, max_authors = 2, max_summary_sent = 2, min_word_count = 3,
       min_sent_count = 2, language = ''en'', use_meta_language = True \<rparr>"

definition example_meta :: metadata where
  "example_meta =
     \<lparr> md_language = ''en'', md_type = Some ''article'', md_site_name = ''site'',
       md_description = [], md_canonical_link = [], md_keywords = [], md_tags = {},
       md_data = [] \<rparr>"

definition example_doc :: node where
  "example_doc =
     Node ''html'' []
       [Node ''a'' [(''class'', ''more'')] [],
        Node ''a'' [(''class'', ''more''), (''href'', ''http://site/full'')] [],
        Node ''a'' [(''class'', ''more''), (''href'', ''http://site/other'')] []]"

text \<open>
  The web: \<open>http://site/a\<close> refreshes to \<open>http://site/b\<close>, which refreshes to
  \<open>http://site/c\<close>; \<open>http://site/missing\<close> answers 404; every page but \<open>garbage\<close> and
  the empty page parses to \<open>example_doc\<close>; a selector matches the \<open>a\<close> elements.
\<close>

definition example_env :: Env where
  "example_env =
     \<lparr> initial_meta = example_meta\<lparr>md_type := None\<rparr>,
       get_html_status = (\<lambda>u c.
          if u = ''http://site/a'' then Inr (''page A'', 200, [])
          else if u = ''http://site/missing'' then Inr (''not found'', 404, [])
          else if u = ''http://site/blocked'' then Inr (''cloudflare'', 403, [])
          else Inr (''page FULL'', 200, [])),
       get_html = (\<lambda>u.
          if u = ''http://site/b'' then ''page B''
          else if u = ''http://site/c'' then ''page C'' else []),
       read_file = (\<lambda>p. Inl (Some ''No such file or directory'')),
       urlparse_scheme = (\<lambda>u. ''http''),
       urlparse_path = (\<lambda>u. u),
       get_scheme = (\<lambda>u. Some ''http''),
       get_domain = (\<lambda>u. ''site''),
       prepare_url = (\<lambda>u base. u),
       extract_meta_refresh = (\<lambda>h.
          if h = ''page A'' then Some ''http://site/b''
          else if h = ''page B'' then Some ''http://site/c'' else None),
       fromstring = (\<lambda>h. if h = [] \<or> h = ''garbage'' then None else Some example_doc),
       xpath = (\<lambda>d sel. filter (\<lambda>n. tag n = ''a'') (iter_nodes d)),
       get_title = (\<lambda>d. ''A long headline''),
       get_authors = (\<lambda>d. []),
       get_metadata = (\<lambda>u d. example_meta),
       get_available_languages = [''en''],
       get_publishing_date = (\<lambda>u d. None),
       readability_summary = (\<lambda>h. h),
       clean = (\<lambda>c d. d),
       calculate_best_node = (\<lambda>c d. (d, d)),
       get_videos = (\<lambda>d n. []),
       parse_images = (\<lambda>u d n.
          \<lparr> ir_meta_image = [], ir_top_image = [], ir_images = [], ir_favicon = [] \<rparr>),
       get_formatted = (\<lambda>c n t. (''One two three. Four five six.'', ''<p>body</p>'')),
       nlp_keywords = (\<lambda>t sw n.
          if t = ''A lon'' then [(''a'', 2 / 10), (''c'', 5 / 10)]
          else [(''a'', 8 / 10), (''b'', 4 / 10)]),
       nlp_summarize = (\<lambda>t b sw n. [''One two three.'']) \<rparr>"

definition example_article :: Article where
  "example_article =
     set_title [] (fresh_article example_env example_config ''http://site''
                     ''http://site/a'' [] [])"

text \<open>A second page: its first link has no \<open>href\<close>, its second link leads to the
  address that answers 404, its third to a page that exists.\<close>

definition example_doc_missing :: node where
  "example_doc_missing =
     Node ''html'' []
       [Node ''a'' [] [],
        Node ''a'' [(''href'', ''http://site/missing'')] [],
        Node ''a'' [(''href'', ''http://site/full'')] []]"

text \<open>The requests that follow a meta-refresh (\<open>network.get_html\<close>).\<close>

definition meta_refresh_fetches :: "request list \<Rightarrow> request list" where
  "meta_refresh_fetches reqs = filter (\<lambda>r. case r of GetHtml u \<Rightarrow> True | _ \<Rightarrow> False) reqs"

text \<open>The number of tokens of a string delimited by a separator character: one more
  than the number of separators (the spec's word count and sentence count).\<close>

definition token_count :: "char \<Rightarrow> string \<Rightarrow> int" where
  "token_count sep s = 1 + int (count_list s sep)"

text \<open>A serialized document in which two elements carry the sentinel of the top node
  (the outer \<open>div\<close> comes first in document order) and none carries the sentinel of the
  complemented node, and a snapshot of a parsed Article that holds it. The snapshot's
  fields still hold handles, to show that the restore does not read them.\<close>

definition example_doc_marked :: node where
  "example_doc_marked =
     Node ''html'' []
       [Node ''div'' [(''id'', ''outer''), (''__newspaper_top_node'', ''xxx'')]
          [Node ''p'' [(''__newspaper_top_node'', ''xxx'')] []],
        Node ''div'' [(''id'', ''second''), (''__newspaper_top_node'', ''xxx'')] []]"

definition example_snapshot :: Snapshot where
  "example_snapshot =
     \<lparr> sn_fields = example_article\<lparr>download_state := SUCCESS, is_parsed := True,
         clean_doc := Some example_doc, clean_top_node := Some example_doc\<rparr>,
       sn_parsed_state = Some True,
       sn_doc_html = Some ''<html>marked</html>'' \<rparr>"

section \<open>Properties of the setters\<close>

declare download.simps [simp del]
declare str_nat.simps [simp del]










section \<open>Properties of the download resolver\<close>

lemma download_failed:
  "initial_html E input_html w = (None, w1) \<Longrightarrow>
   download E input_html title_arg rc ig w = Inr w1"
  by (subst download.simps) simp

lemma download_no_refresh:
  assumes "initial_html E input_html w = (Some h, w1)"
    and "\<not> (follow_meta_refresh (config (fst w1)) \<and> truthy (extract_meta_refresh E h) \<and> rc < 1)"
  shows "download E input_html title_arg rc ig w = download_read_more E title_arg ig h w1"
  using assms by (subst download.simps) (auto simp: truthy_def split: option.splits)

lemma download_refresh:
  assumes "initial_html E input_html w = (Some h, w1)"
    and "follow_meta_refresh (config (fst w1))"
    and "extract_meta_refresh E h = Some u" and "u \<noteq> []" and "rc < 1"
  shows "download E input_html title_arg rc ig w =
         download E (Some (get_html E u)) None (rc + 1) False (fst w1, snd w1 @ [GetHtml u])"
  using assms by (subst download.simps) simp

lemma initial_html_Some [simp]: "initial_html E (Some h) w = (Some h, w)"
  by (simp add: initial_html_def)




lemma str_int_404: "str_int 404 = ''404''"
  by code_simp

text \<open>For every environment: a status code of 400 or more gives no HTML, the state
  \<open>FAILED_RESPONSE\<close> and a message that formats the parameter \<open>url\<close>.\<close>

lemma parse_scheme_http_failed_response:
  assumes "get_html_status E (if truthy url_arg then str_opt url_arg else url a) (config a)
           = Inr (h, status_code, hist)"
    and "400 \<le> status_code"
  shows "parse_scheme_http E url_arg (a, reqs) =
     (None,
      a\<lparr>history := hist, download_state := FAILED_RESPONSE,
        download_exception_msg :=
          Some (case detect_protection h of
                  Some protection \<Rightarrow>
                    ''Website protected with '' @ protection @ '', url: '' @ str_opt url_arg
                | None \<Rightarrow>
                    ''Status code '' @ str_int status_code @ '' for url '' @ str_opt url_arg)\<rparr>,
      reqs @ [GetHtmlStatus (if truthy url_arg then str_opt url_arg else url a)])"
  using assms by (simp add: parse_scheme_http_def Let_def split: option.split)

text \<open>
  Claim C6. The messages of \<open>_parse_scheme_http\<close> format its parameter \<open>url\<close>, which is
  \<open>None\<close> when \<open>download()\<close> fetches the Article's own URL: the Article at
  \<open>http://site/missing\<close>, answered with status 404, ends in \<open>FAILED_RESPONSE\<close> with the
  message \<open>Status code 404 for url None\<close>, and the one at \<open>http://site/blocked\<close>, answered
  with status 403 and a Cloudflare page, with \<open>Website protected with Cloudflare, url: None\<close>;
  the URL that was fetched is not in the message.
\<close>

theorem status_message_formats_url_parameter:
  "download example_env None None 0 False
     (example_article\<lparr>url := ''http://site/missing''\<rparr>, [])
   = Inr (example_article\<lparr>url := ''http://site/missing'',
            download_state := FAILED_RESPONSE,
            download_exception_msg := Some ''Status code 404 for url None''\<rparr>,
          [GetHtmlStatus ''http://site/missing''])
   \<and> download example_env None None 0 False
     (example_article\<lparr>url := ''http://site/blocked''\<rparr>, [])
   = Inr (example_article\<lparr>url := ''http://site/blocked'',
            download_state := FAILED_RESPONSE,
            download_exception_msg := Some ''Website protected with Cloudflare, url: None''\<rparr>,
          [GetHtmlStatus ''http://site/blocked''])"
proof -
  have "initial_html example_env None (example_article\<lparr>url := ''http://site/missing''\<rparr>, [])
    = (None, (example_article\<lparr>url := ''http://site/missing'',
            download_state := FAILED_RESPONSE,
            download_exception_msg := Some ''Status code 404 for url None''\<rparr>,
          [GetHtmlStatus ''http://site/missing'']))"
    by (simp add: initial_html_def parse_scheme_http_def example_env_def truthy_def str_opt_def
        Let_def detect_protection_def str_int_404 example_article_def set_title_def
        fresh_article_def)
  moreover have "initial_html example_env None
      (example_article\<lparr>url := ''http://site/blocked''\<rparr>, [])
    = (None, (example_article\<lparr>url := ''http://site/blocked'',
            download_state := FAILED_RESPONSE,
            download_exception_msg := Some ''Website protected with Cloudflare, url: None''\<rparr>,
          [GetHtmlStatus ''http://site/blocked'']))"
    by (simp add: initial_html_def parse_scheme_http_def example_env_def truthy_def str_opt_def
        Let_def detect_protection_def example_article_def set_title_def fresh_article_def)
  ultimately show ?thesis by (simp add: download_failed)
qed

lemma read_more_loop_find:
  "read_more_loop E nodes h w =
     (case find (\<lambda>m. truthy (node_get m ''href'')) nodes of
        None \<Rightarrow> (h, w)
      | Some n \<Rightarrow> read_more_loop E [n] h w)"
  by (induction nodes) simp_all

lemma parse_scheme_http_requests:
  "snd (snd (parse_scheme_http E u (a, reqs)))
     = reqs @ [GetHtmlStatus (if truthy u then str_opt u else url a)]"
  by (simp add: parse_scheme_http_def Let_def split: sum.split prod.split)

lemma parse_scheme_http_url:
  "url (fst (snd (parse_scheme_http E u (a, reqs)))) = url a"
  by (simp add: parse_scheme_http_def Let_def split: sum.split prod.split)


text \<open>
  Claim C1, as amended. When \<open>download()\<close> reaches the read-more step (the HTML \<open>h\<close> is
  at hand, no meta-refresh is followed, the selector is set and not ignored, and \<open>h\<close>
  parses to \<open>d\<close>), the resolver passes over the matching nodes whose \<open>href\<close> is missing
  or empty and attempts the first matching node that has one, and no other: with no such
  node it sends no request and keeps the HTML and the URL; otherwise it sends exactly one
  request, for that node's prepared \<open>href\<close>, takes the new HTML and URL if that request
  succeeds, and keeps the HTML and the URL if it fails. No later node is inspected.
\<close>

theorem read_more_first_href_only:
  assumes "initial_html E input_html w = (Some h, (a, reqs))"
    and "\<not> (follow_meta_refresh (config a) \<and> truthy (extract_meta_refresh E h)
             \<and> recursion_counter < 1)"
    and "\<not> ignore_read_more" and "read_more_link a \<noteq> []"
    and "fromstring E h = Some d"
  shows "case find (\<lambda>m. truthy (node_get m ''href'')) (xpath E d (read_more_link a)) of
      None \<Rightarrow>
        download E input_html title_arg recursion_counter ignore_read_more w
          = Inr (download_finish title_arg h (a, reqs))
    | Some n \<Rightarrow>
        (let new_url = prepare_url E (str_opt (node_get n ''href'')) (url a);
             res = parse_scheme_http E (Some new_url) (a, reqs)
         in download E input_html title_arg recursion_counter ignore_read_more w
              = Inr (case res of
                       (Some h', (a', reqs')) \<Rightarrow>
                         download_finish title_arg h' (a'\<lparr>url := new_url\<rparr>, reqs')
                     | (None, w') \<Rightarrow> download_finish title_arg h w')
            \<and> snd (snd res)
                = reqs @ [GetHtmlStatus (if new_url \<noteq> [] then new_url else url a)]
            \<and> url (fst (snd res)) = url a)"
proof -
  have d: "download E input_html title_arg recursion_counter ignore_read_more w
           = download_read_more E title_arg ignore_read_more h (a, reqs)"
    using assms(1,2) by (intro download_no_refresh) auto
  let ?nodes = "xpath E d (read_more_link a)"
  have r: "download_read_more E title_arg ignore_read_more h (a, reqs)
           = (case read_more_loop E ?nodes h (a, reqs) of
                (h', w') \<Rightarrow> Inr (download_finish title_arg h' w'))"
    using assms(3,4,5) by (simp add: download_read_more_def)
  show ?thesis
  proof (cases "find (\<lambda>m. truthy (node_get m ''href'')) ?nodes")
    case None
    then show ?thesis
      using d r by (simp add: read_more_loop_find [of E ?nodes])
  next
    case (Some n)
    then have t: "truthy (node_get n ''href'')"
      by (auto simp: find_Some_iff)
    define new_url where "new_url = prepare_url E (str_opt (node_get n ''href'')) (url a)"
    have l: "read_more_loop E ?nodes h (a, reqs)
             = (case parse_scheme_http E (Some new_url) (a, reqs) of
                  (Some h', (a', reqs')) \<Rightarrow> (h', (a'\<lparr>url := new_url\<rparr>, reqs'))
                | (None, w') \<Rightarrow> (h, w'))"
      using Some t unfolding new_url_def by (simp add: read_more_loop_find [of E ?nodes] Let_def)
    have q: "snd (snd (parse_scheme_http E (Some new_url) (a, reqs)))
             = reqs @ [GetHtmlStatus (if new_url \<noteq> [] then new_url else url a)]"
      by (simp add: parse_scheme_http_requests truthy_def str_opt_def)
    have "download E input_html title_arg recursion_counter ignore_read_more w
          = Inr (case parse_scheme_http E (Some new_url) (a, reqs) of
                   (Some h', (a', reqs')) \<Rightarrow>
                     download_finish title_arg h' (a'\<lparr>url := new_url\<rparr>, reqs')
                 | (None, w') \<Rightarrow> download_finish title_arg h w')"
      unfolding d r l by (simp split: prod.split option.split)
    then show ?thesis
      using Some q parse_scheme_http_url [of E "Some new_url" a reqs]
      by (simp add: Let_def new_url_def [symmetric])
  qed
qed


text \<open>The theorem on a page whose first link has no \<open>href\<close> and whose second link
  answers 404: one request, for the second link; the third link is never fetched and the
  HTML and the URL stay.\<close>

theorem read_more_first_href_only_witness:
  "download (example_env\<lparr>fromstring := (\<lambda>h. Some example_doc_missing)\<rparr>)
     (Some ''preview'') None 0 False (example_article\<lparr>read_more_link := ''//a''\<rparr>, [])
   = Inr (example_article\<lparr>read_more_link := ''//a'', download_state := SUCCESS,
            download_exception_msg := Some ''Status code 404 for url http://site/missing'',
            html := ''preview''\<rparr>,
          [GetHtmlStatus ''http://site/missing''])"
  using read_more_first_href_only [where E = "example_env\<lparr>fromstring := (\<lambda>h. Some example_doc_missing)\<rparr>"
      and input_html = "Some ''preview''" and w = "(example_article\<lparr>read_more_link := ''//a''\<rparr>, [])"
      and h = "''preview''" and a = "example_article\<lparr>read_more_link := ''//a''\<rparr>"
      and reqs = "[]" and recursion_counter = 0 and ignore_read_more = False
      and d = example_doc_missing and title_arg = None]
  by (simp add: example_env_def example_article_def example_doc_missing_def set_title_def
      fresh_article_def truthy_def str_opt_def node_get_def parse_scheme_http_def Let_def
      detect_protection_def str_int_404 download_finish_def set_html_def)

text \<open>Claim C1 as stated fails: the selector matches three nodes, the first has no
  \<open>href\<close>, and \<open>download()\<close> goes on to the second node, fetches its \<open>href\<close> and
  replaces the HTML and the URL.\<close>

theorem read_more_falls_through_to_second_node:
  "map (\<lambda>n. node_get n ''href'') (xpath example_env example_doc ''//a'')
     = [None, Some ''http://site/full'', Some ''http://site/other'']
   \<and> download example_env (Some ''preview'') None 0 False
       (example_article\<lparr>read_more_link := ''//a''\<rparr>, [])
     = Inr (example_article\<lparr>read_more_link := ''//a'', download_state := SUCCESS,
              url := ''http://site/full'', html := ''page FULL''\<rparr>,
            [GetHtmlStatus ''http://site/full''])"
proof -
  have n: "map (\<lambda>n. node_get n ''href'') (xpath example_env example_doc ''//a'')
     = [None, Some ''http://site/full'', Some ''http://site/other'']"
    by (simp add: example_env_def example_doc_def node_get_def)
  have "download example_env (Some ''preview'') None 0 False
       (example_article\<lparr>read_more_link := ''//a''\<rparr>, [])
     = download_read_more example_env None False ''preview''
         (example_article\<lparr>read_more_link := ''//a''\<rparr>, [])"
    by (rule download_no_refresh) (simp_all add: example_env_def truthy_def)
  also have "\<dots> = Inr (example_article\<lparr>read_more_link := ''//a'', download_state := SUCCESS,
              url := ''http://site/full'', html := ''page FULL''\<rparr>,
            [GetHtmlStatus ''http://site/full''])"
    by (simp add: download_read_more_def example_env_def example_article_def example_doc_def
      set_title_def fresh_article_def truthy_def str_opt_def node_get_def
      parse_scheme_http_def Let_def download_finish_def set_html_def)
  finally show ?thesis using n by simp
qed

lemma parse_scheme_http_fetches:
  "parse_scheme_http E u (a, reqs) = (r, a', reqs') \<Longrightarrow>
   meta_refresh_fetches reqs' = meta_refresh_fetches reqs"
  using parse_scheme_http_requests [of E u a reqs]
  by (simp add: meta_refresh_fetches_def)

lemma parse_scheme_file_fetches:
  "parse_scheme_file E p (a, reqs) = (r, a', reqs') \<Longrightarrow>
   meta_refresh_fetches reqs' = meta_refresh_fetches reqs"
  by (auto simp: parse_scheme_file_def meta_refresh_fetches_def split: sum.splits)

lemma initial_html_fetches:
  "initial_html E input_html (a, reqs) = (r, a', reqs') \<Longrightarrow>
   meta_refresh_fetches reqs' = meta_refresh_fetches reqs"
  by (auto simp: initial_html_def split: option.splits if_splits
      dest: parse_scheme_http_fetches parse_scheme_file_fetches)

lemma read_more_loop_fetches:
  "read_more_loop E nodes h (a, reqs) = (h', a', reqs') \<Longrightarrow>
   meta_refresh_fetches reqs' = meta_refresh_fetches reqs"
proof (induction nodes)
  case Nil
  then show ?case by simp
next
  case (Cons n nodes)
  then show ?case
    by (auto simp: Let_def split: prod.splits option.splits if_splits
        dest: parse_scheme_http_fetches)
qed

lemma download_finish_requests: "download_finish t h (a, reqs) = (a', reqs') \<Longrightarrow> reqs' = reqs"
  by (auto simp: download_finish_def Let_def)

lemma download_read_more_fetches:
  "download_read_more E t ig h (a, reqs) = Inr (a', reqs') \<Longrightarrow>
   meta_refresh_fetches reqs' = meta_refresh_fetches reqs"
  by (auto simp: download_read_more_def
      split: if_splits option.splits prod.splits
      dest!: download_finish_requests read_more_loop_fetches)

lemma download_fetches_bounded:
  "download E input_html t rc ig w = Inr w' \<Longrightarrow>
   length (meta_refresh_fetches (snd w'))
     \<le> length (meta_refresh_fetches (snd w)) + nat (1 - rc)"
proof (induction E input_html t rc ig w arbitrary: w' rule: download.induct)
  case (1 E input_html title_arg rc ig w)
  obtain a reqs where w: "w = (a, reqs)" by (cases w)
  obtain r a1 reqs1 where i: "initial_html E input_html w = (r, a1, reqs1)"
    by (cases "initial_html E input_html w") auto
  have f1: "meta_refresh_fetches reqs1 = meta_refresh_fetches reqs"
    using i initial_html_fetches unfolding w by blast
  obtain a' reqs' where w': "w' = (a', reqs')" by (cases w')
  show ?case
  proof (cases r)
    case None
    then show ?thesis
      using "1.prems" i f1 w by (auto simp: download_failed)
  next
    case (Some h)
    show ?thesis
    proof (cases "follow_meta_refresh (config a1) \<and> truthy (extract_meta_refresh E h) \<and> rc < 1")
      case False
      then have "download E input_html title_arg rc ig w
                 = download_read_more E title_arg ig h (a1, reqs1)"
        using i Some by (intro download_no_refresh) auto
      then show ?thesis
        using "1.prems" download_read_more_fetches [of E title_arg ig h a1 reqs1 a' reqs'] f1 w w'
        by simp
    next
      case True
      then obtain u where u: "extract_meta_refresh E h = Some u" "u \<noteq> []"
        by (auto simp: truthy_def split: option.splits)
      have "download E input_html title_arg rc ig w
            = download E (Some (get_html E u)) None (rc + 1) False (a1, reqs1 @ [GetHtml u])"
        using download_refresh [of E input_html w h "(a1, reqs1)" u rc title_arg ig] i Some True u
        by simp
      then have "length (meta_refresh_fetches (snd w'))
          \<le> length (meta_refresh_fetches (reqs1 @ [GetHtml u])) + nat (1 - (rc + 1))"
        using "1.IH" [OF i [symmetric, unfolded Some] refl] True u "1.prems"
        by simp
      moreover have "length (meta_refresh_fetches (reqs1 @ [GetHtml u]))
          = Suc (length (meta_refresh_fetches reqs))"
        using f1 by (simp add: meta_refresh_fetches_def)
      moreover have "Suc (nat (1 - (rc + 1))) = nat (1 - rc)"
        using True by linarith
      ultimately show ?thesis
        using w by simp
    qed
  qed
qed


text \<open>
  Claim C2. \<open>download()\<close> with \<open>follow_meta_refresh\<close> on, called with the default
  \<open>recursion_counter = 0\<close> on an Article whose page A is fetched from the network and
  refreshes to B: the one recursive call works on B's content with \<open>recursion_counter = 1\<close>
  and goes straight to the read-more step, whatever B itself asks for (a refresh to C
  included). Without a read-more selector the result is B's content, and the requests are
  the one for A and the one for B. In every case the only meta-refresh request is the one
  for B, and no call with \<open>recursion_counter = 0\<close> sends more than one. The recursion is
  bounded by \<open>1 - recursion_counter\<close>, so \<open>download\<close> is a total function.
\<close>

theorem meta_refresh_followed_once:
  assumes "urlparse_scheme E (url a) \<noteq> ''file''"
    and "get_html_status E (url a) (config a) = Inr (hA, code, hist)" and "code < 400"
    and "follow_meta_refresh (config a)"
    and "extract_meta_refresh E hA = Some uB" and "uB \<noteq> []"
  shows "download E None title_arg 0 ignore_read_more (a, reqs)
        = download_read_more E None False (get_html E uB)
            (a\<lparr>history := hist\<rparr>, reqs @ [GetHtmlStatus (url a), GetHtml uB])
    \<and> (read_more_link a = [] \<longrightarrow>
         download E None title_arg 0 ignore_read_more (a, reqs)
         = Inr (set_html (Some (get_html E uB)) (a\<lparr>history := hist\<rparr>),
                reqs @ [GetHtmlStatus (url a), GetHtml uB]))
    \<and> (\<forall>w'. download E None title_arg 0 ignore_read_more (a, reqs) = Inr w' \<longrightarrow>
           meta_refresh_fetches (snd w') = meta_refresh_fetches reqs @ [GetHtml uB])
    \<and> (\<forall>input_html t ig w w'. download E input_html t 0 ig w = Inr w' \<longrightarrow>
           length (meta_refresh_fetches (snd w')) \<le> length (meta_refresh_fetches (snd w)) + 1)"
proof -
  let ?a1 = "a\<lparr>history := hist\<rparr>"
  let ?w2 = "(?a1, reqs @ [GetHtmlStatus (url a), GetHtml uB])"
  have i: "initial_html E None (a, reqs) = (Some hA, (?a1, reqs @ [GetHtmlStatus (url a)]))"
    using assms(1,2,3)
    by (simp add: initial_html_def parse_scheme_http_def truthy_def Let_def)
  have "download E None title_arg 0 ignore_read_more (a, reqs)
        = download E (Some (get_html E uB)) None (0 + 1) False
            (fst (?a1, reqs @ [GetHtmlStatus (url a)]),
             snd (?a1, reqs @ [GetHtmlStatus (url a)]) @ [GetHtml uB])"
    using i assms(4,5,6) by (intro download_refresh) simp_all
  also have "\<dots> = download_read_more E None False (get_html E uB) ?w2"
    by (simp add: download_no_refresh)
  finally have d: "download E None title_arg 0 ignore_read_more (a, reqs)
        = download_read_more E None False (get_html E uB) ?w2" .
  have e: "read_more_link a = [] \<Longrightarrow>
      download_read_more E None False (get_html E uB) ?w2
      = Inr (set_html (Some (get_html E uB)) ?a1, reqs @ [GetHtmlStatus (url a), GetHtml uB])"
    by (simp add: download_read_more_def download_finish_def Let_def)
  have f: "meta_refresh_fetches (snd w') = meta_refresh_fetches reqs @ [GetHtml uB]"
    if "download E None title_arg 0 ignore_read_more (a, reqs) = Inr w'" for w'
  proof -
    obtain a' reqs' where w': "w' = (a', reqs')" by (cases w')
    have "meta_refresh_fetches reqs'
          = meta_refresh_fetches (reqs @ [GetHtmlStatus (url a), GetHtml uB])"
      using that d download_read_more_fetches [of E None False "get_html E uB" ?a1 _ a' reqs'] w'
      by simp
    then show ?thesis by (simp add: w' meta_refresh_fetches_def)
  qed
  have g: "length (meta_refresh_fetches (snd w')) \<le> length (meta_refresh_fetches (snd w)) + 1"
    if "download E input_html t 0 ig w = Inr w'" for input_html t ig w w'
    using download_fetches_bounded [OF that] by simp
  show ?thesis using d e f g by auto
qed

text \<open>The theorem on the example web, where A refreshes to B and B to C: the result is
  B's page, and C is not requested.\<close>

theorem meta_refresh_followed_once_witness:
  "extract_meta_refresh example_env ''page B'' = Some ''http://site/c''
   \<and> download example_env None None 0 False (example_article, [])
     = Inr (example_article\<lparr>download_state := SUCCESS, html := ''page B''\<rparr>,
            [GetHtmlStatus ''http://site/a'', GetHtml ''http://site/b''])"
proof -
  have h: "urlparse_scheme example_env (url example_article) \<noteq> ''file''"
    "get_html_status example_env (url example_article) (config example_article)
       = Inr (''page A'', 200, [])"
    "(200::int) < 400" "follow_meta_refresh (config example_article)"
    "extract_meta_refresh example_env ''page A'' = Some ''http://site/b''"
    "''http://site/b'' \<noteq> []"
    by (simp_all add: example_env_def example_article_def example_config_def set_title_def
        fresh_article_def)
  have r: "read_more_link example_article = []"
    by (simp add: example_article_def set_title_def fresh_article_def)
  have "download example_env None None 0 False (example_article, [])
        = Inr (set_html (Some (get_html example_env ''http://site/b''))
                 (example_article\<lparr>history := []\<rparr>),
               [] @ [GetHtmlStatus (url example_article), GetHtml ''http://site/b''])"
    using meta_refresh_followed_once [OF h, of None False "[]"] r by blast
  then show ?thesis
    by (simp add: example_env_def example_article_def example_config_def set_title_def
        fresh_article_def set_html_def Let_def)
qed

section \<open>Properties of the parse pipeline\<close>

lemma parse_doc_none:
  assumes "download_state a = SUCCESS" and "fromstring E (html a) = None"
  shows "parse E a = Inr (a\<lparr>doc := None, clean_doc := None, is_parsed := True\<rparr>)"
  using assms by (simp add: parse_def throw_if_not_downloaded_verbose_def Let_def)

lemma parse_error_iff:
  "(\<exists>e. parse E a = Inl e) \<longleftrightarrow> download_state a \<noteq> SUCCESS"
  by (cases "download_state a")
     (simp_all add: parse_def throw_if_not_downloaded_verbose_def Let_def split: option.split)

lemma nlp_error_iff:
  "(\<exists>e. nlp E a = Inl e) \<longleftrightarrow> (download_state a \<noteq> SUCCESS \<or> \<not> is_parsed a)"
  by (cases "download_state a")
     (simp_all add: nlp_def throw_if_not_downloaded_verbose_def throw_if_not_parsed_verbose_def
        Let_def)


text \<open>
  Claim C5. After a successful download, when the raw HTML yields no tree
  (\<open>parsers.fromstring\<close> returns \<open>None\<close>), \<open>parse()\<close> raises nothing and returns the
  Article with \<open>is_parsed\<close> set and \<open>doc\<close>, \<open>clean_doc\<close> null; every other attribute keeps
  the value it had, so the content attributes of a fresh Article stay at their defaults.
  \<open>parse()\<close> raises exactly when the download state is not \<open>SUCCESS\<close>, and \<open>nlp()\<close>
  exactly when it is not \<open>SUCCESS\<close> or the Article is not parsed; before any download the
  message names \<open>download()\<close>.
\<close>

theorem parse_unparseable_document:
  assumes "download_state a = SUCCESS" and "fromstring E (html a) = None"
  shows "parse E a = Inr (a\<lparr>doc := None, clean_doc := None, is_parsed := True\<rparr>)
    \<and> (\<forall>b. (\<exists>e. parse E b = Inl e) \<longleftrightarrow> download_state b \<noteq> SUCCESS)
    \<and> (\<forall>b. (\<exists>e. nlp E b = Inl e) \<longleftrightarrow> (download_state b \<noteq> SUCCESS \<or> \<not> is_parsed b))
    \<and> (\<forall>b. download_state b = NOT_STARTED \<longrightarrow>
           parse E b = Inl (ArticleException ''You must download() an article first!''))"
  using parse_doc_none [OF assms] parse_error_iff [of E] nlp_error_iff [of E]
  by (simp add: parse_def throw_if_not_downloaded_verbose_def)

text \<open>The theorem on the fresh example Article, downloaded from a page that does not
  parse.\<close>

theorem parse_unparseable_document_witness:
  "run_calls example_env [Download (Some ''garbage'') None 0 False, Parse] (example_article, [])
     = Inr (example_article\<lparr>download_state := SUCCESS, html := ''garbage'',
              is_parsed := True\<rparr>, [])
   \<and> parse example_env example_article
     = Inl (ArticleException ''You must download() an article first!'')"
proof -
  let ?a = "example_article\<lparr>download_state := SUCCESS, html := ''garbage''\<rparr>"
  have "download example_env (Some ''garbage'') None 0 False (example_article, [])
        = download_read_more example_env None False ''garbage'' (example_article, [])"
    by (rule download_no_refresh) (simp_all add: example_env_def truthy_def)
  also have "\<dots> = Inr (?a, [])"
    by (simp add: download_read_more_def download_finish_def set_html_def Let_def
        example_article_def set_title_def fresh_article_def)
  finally have d: "download example_env (Some ''garbage'') None 0 False (example_article, [])
        = Inr (?a, [])" .
  have h: "download_state ?a = SUCCESS" "fromstring example_env (html ?a) = None"
    by (simp_all add: example_env_def)
  have n: "download_state example_article = NOT_STARTED"
    by (simp add: example_article_def set_title_def fresh_article_def)
  have p: "parse example_env ?a = Inr (?a\<lparr>doc := None, clean_doc := None, is_parsed := True\<rparr>)"
    and q: "parse example_env example_article
            = Inl (ArticleException ''You must download() an article first!'')"
    using parse_unparseable_document [OF h] n by blast+
  show ?thesis
    using d p q by (simp add: example_article_def set_title_def fresh_article_def)
qed

section \<open>Properties of the validity classifier\<close>

lemma py_split_nonempty: "py_split sep s \<noteq> []"
  by (induction s) (auto split: list.split)

lemma length_py_split: "length (py_split sep s) = Suc (count_list s sep)"
proof (induction s)
  case Nil
  then show ?case by simp
next
  case (Cons c cs)
  then show ?case
    using py_split_nonempty [of sep cs] by (auto split: list.split)
qed

lemma token_count_py_split: "int (length (py_split sep s)) = token_count sep s"
  by (simp add: length_py_split token_count_def)

lemma str_contains_sublist: "str_contains needle hay \<longleftrightarrow> sublist needle hay"
  by (induction hay) (simp_all add: sublist_Cons_right)

lemma is_media_news_iff:
  "is_media_news a \<longleftrightarrow> (\<exists>s \<in> set safe_urls. \<exists>p q. url a = p @ s @ q)"
  by (auto simp: is_media_news_def list_ex_iff str_contains_sublist sublist_def)

text \<open>
  Claim C7. \<open>is_valid_body()\<close> raises the precondition error before \<open>parse()\<close>. On a
  parsed Article, metadata type \<open>article\<close> with more space-delimited tokens in the text
  than \<open>min_word_count\<close> decides valid, whatever the later rules say. Otherwise the rules
  decide in this order, the first that applies: a URL with none of the media markers and
  an empty text, invalid; a title of fewer than 2 space-delimited tokens, invalid; fewer
  tokens in the text than \<open>min_word_count\<close>, invalid; fewer period-delimited segments than
  \<open>min_sent_count\<close>, invalid; empty raw HTML, invalid; otherwise valid.
\<close>

theorem is_valid_body_priority_order:
  "(\<not> is_parsed a \<longrightarrow>
      is_valid_body a
      = Inl (ArticleException ''must parse article before checking if it's body is valid!''))
   \<and> (is_parsed a \<and> md_type (extractor_meta a) = Some ''article''
        \<and> min_word_count (config a) < token_count CHR '' '' (text_prop a)
      \<longrightarrow> is_valid_body a = Inr True)
   \<and> (is_parsed a
        \<and> \<not> (md_type (extractor_meta a) = Some ''article''
              \<and> min_word_count (config a) < token_count CHR '' '' (text_prop a))
      \<longrightarrow> is_valid_body a =
          Inr (if \<not> (\<exists>s \<in> set safe_urls. \<exists>p q. url a = p @ s @ q) \<and> text_prop a = [] then False
               else if token_count CHR '' '' (title a) < 2 then False
               else if token_count CHR '' '' (text_prop a) < min_word_count (config a) then False
               else if token_count CHR ''.'' (text_prop a) < min_sent_count (config a) then False
               else if html a = [] then False
               else True))"
proof -
  have t: "length (py_split CHR '' '' (title a)) < 2 \<longleftrightarrow> token_count CHR '' '' (title a) < 2"
    by (simp add: length_py_split token_count_def)
  have m: "(\<exists>s \<in> set safe_urls. \<exists>p q. url a = p @ s @ q) \<longleftrightarrow> is_media_news a"
    by (simp add: is_media_news_iff)
  show ?thesis
    unfolding m by (simp add: is_valid_body_def Let_def token_count_py_split t)
qed


lemma example_article_fields:
  "is_parsed example_article = False" "url example_article = ''http://site/a''"
  "md_type (extractor_meta example_article) = None"
  "min_word_count (config example_article) = 3" "min_sent_count (config example_article) = 2"
  "text_prop example_article = []" "title example_article = []" "html example_article = []"
  by (simp_all add: example_article_def set_title_def fresh_article_def example_env_def
      example_config_def)

lemma not_media_example: "\<not> is_media_news (a\<lparr>url := ''http://site/a''\<rparr>)"
  by (simp add: is_media_news_def safe_urls_def)

text \<open>The theorem on the example Article (\<open>min_word_count = 3\<close>, \<open>min_sent_count = 2\<close>),
  one Article for the error and for each rule in turn.\<close>

theorem is_valid_body_priority_order_witness:
  "is_valid_body example_article
     = Inl (ArticleException ''must parse article before checking if it's body is valid!'')
   \<and> is_valid_body (example_article\<lparr>is_parsed := True, extractor_meta := example_meta,
        text_prop := ''a b c d''\<rparr>) = Inr True
   \<and> is_valid_body (example_article\<lparr>is_parsed := True\<rparr>) = Inr False
   \<and> is_valid_body (example_article\<lparr>is_parsed := True, url := ''http://site/video/a''\<rparr>)
       = Inr False
   \<and> is_valid_body (example_article\<lparr>is_parsed := True, text_prop := ''a b c d'',
        title := ''Headline''\<rparr>) = Inr False
   \<and> is_valid_body (example_article\<lparr>is_parsed := True, text_prop := ''a b'',
        title := ''Two words''\<rparr>) = Inr False
   \<and> is_valid_body (example_article\<lparr>is_parsed := True, text_prop := ''a b c'',
        title := ''Two words''\<rparr>) = Inr False
   \<and> is_valid_body (example_article\<lparr>is_parsed := True, text_prop := ''a b. c'',
        title := ''Two words''\<rparr>) = Inr False
   \<and> is_valid_body (example_article\<lparr>is_parsed := True, text_prop := ''a b. c'',
        title := ''Two words'', html := ''<p>a b. c</p>''\<rparr>) = Inr True"
proof -
  have m: "(\<exists>s \<in> set safe_urls. \<exists>p q. url a = p @ s @ q) \<longleftrightarrow> is_media_news a" for a
    by (simp add: is_media_news_iff)
  note f = example_article_fields token_count_def example_meta_def is_media_news_def
    safe_urls_def
  have "is_valid_body example_article
     = Inl (ArticleException ''must parse article before checking if it's body is valid!'')"
    using is_valid_body_priority_order [of example_article] by (simp add: f)
  moreover have "is_valid_body (example_article\<lparr>is_parsed := True,
      extractor_meta := example_meta, text_prop := ''a b c d''\<rparr>) = Inr True"
    using is_valid_body_priority_order [of "example_article\<lparr>is_parsed := True,
      extractor_meta := example_meta, text_prop := ''a b c d''\<rparr>"] by (simp add: f)
  moreover have "is_valid_body (example_article\<lparr>is_parsed := True\<rparr>) = Inr False"
    using is_valid_body_priority_order [of "example_article\<lparr>is_parsed := True\<rparr>"]
    unfolding m by (simp add: f)
  moreover have "is_valid_body (example_article\<lparr>is_parsed := True,
      url := ''http://site/video/a''\<rparr>) = Inr False"
    using is_valid_body_priority_order [of "example_article\<lparr>is_parsed := True,
      url := ''http://site/video/a''\<rparr>"]
    unfolding m by (simp add: f)
  moreover have "is_valid_body (example_article\<lparr>is_parsed := True, text_prop := ''a b c d'',
        title := ''Headline''\<rparr>) = Inr False"
    using is_valid_body_priority_order [of "example_article\<lparr>is_parsed := True,
      text_prop := ''a b c d'', title := ''Headline''\<rparr>"]
    unfolding m by (simp add: f)
  moreover have "is_valid_body (example_article\<lparr>is_parsed := True, text_prop := ''a b'',
        title := ''Two words''\<rparr>) = Inr False"
    using is_valid_body_priority_order [of "example_article\<lparr>is_parsed := True,
      text_prop := ''a b'', title := ''Two words''\<rparr>"]
    unfolding m by (simp add: f)
  moreover have "is_valid_body (example_article\<lparr>is_parsed := True, text_prop := ''a b c'',
        title := ''Two words''\<rparr>) = Inr False"
    using is_valid_body_priority_order [of "example_article\<lparr>is_parsed := True,
      text_prop := ''a b c'', title := ''Two words''\<rparr>"]
    unfolding m by (simp add: f)
  moreover have "is_valid_body (example_article\<lparr>is_parsed := True, text_prop := ''a b. c'',
        title := ''Two words''\<rparr>) = Inr False"
    using is_valid_body_priority_order [of "example_article\<lparr>is_parsed := True,
      text_prop := ''a b. c'', title := ''Two words''\<rparr>"]
    unfolding m by (simp add: f)
  moreover have "is_valid_body (example_article\<lparr>is_parsed := True, text_prop := ''a b. c'',
        title := ''Two words'', html := ''<p>a b. c</p>''\<rparr>) = Inr True"
    using is_valid_body_priority_order [of "example_article\<lparr>is_parsed := True,
      text_prop := ''a b. c'', title := ''Two words'', html := ''<p>a b. c</p>''\<rparr>"]
    unfolding m by (simp add: f)
  ultimately show ?thesis by simp
qed

section \<open>Properties of the NLP postprocessor\<close>





lemma py_slice_to_take: "\<exists>m. py_slice_to n xs = take m xs"
  by (auto simp: py_slice_to_def)








section \<open>The original URL\<close>

lemma setters_original_url [simp]:
  "original_url (set_title v a) = original_url a"
  "original_url (set_text v a) = original_url a"
  "original_url (set_summary v a) = original_url a"
  "original_url (set_html ov a) = original_url a"
  "original_url (set_movies ms a) = original_url a"
  "original_url (fetch_images E a) = original_url a"
  "original_url (parse_metadata E md a) = original_url a"
  "original_url (parse_body E ttl a) = original_url a"
  by (simp_all add: set_title_def set_text_def set_summary_def set_html_def set_movies_def
      fetch_images_def parse_metadata_def parse_body_def Let_def split: option.split prod.split)

lemma setters_url [simp]:
  "url (set_title v a) = url a"
  "url (set_text v a) = url a"
  "url (set_summary v a) = url a"
  "url (set_html ov a) = url a"
  "url (set_movies ms a) = url a"
  "url (fetch_images E a) = url a"
  "url (parse_metadata E md a) = url a"
  "url (parse_body E ttl a) = url a"
  by (simp_all add: set_title_def set_text_def set_summary_def set_html_def set_movies_def
      fetch_images_def parse_metadata_def parse_body_def Let_def split: option.split prod.split)













lemma setters_download_state [simp]:
  "download_state (set_title v a) = download_state a"
  "download_state (set_text v a) = download_state a"
  "download_state (set_movies ms a) = download_state a"
  "download_state (fetch_images E a) = download_state a"
  "download_state (parse_metadata E md a) = download_state a"
  "download_state (parse_body E ttl a) = download_state a"
  by (simp_all add: set_title_def set_text_def set_movies_def
      fetch_images_def parse_metadata_def parse_body_def Let_def split: option.split prod.split)





section \<open>Properties of the restore\<close>

lemma first_node_None: "first_node (filter P xs) = None \<longleftrightarrow> (\<forall>n \<in> set xs. \<not> P n)"
proof (cases "filter P xs")
  case Nil
  then show ?thesis by (simp add: first_node_def filter_empty_conv)
next
  case (Cons y ys)
  have "y \<in> set (filter P xs)" unfolding Cons by simp
  then have "y \<in> set xs" "P y" by simp_all
  then show ?thesis by (auto simp: Cons first_node_def)
qed

lemma first_node_Some:
  "first_node (filter P xs) = Some n \<Longrightarrow>
   \<exists>pre post. xs = pre @ n # post \<and> P n \<and> (\<forall>m \<in> set pre. \<not> P m)"
proof (induction xs)
  case Nil
  then show ?case by (simp add: first_node_def)
next
  case (Cons x xs)
  show ?case
  proof (cases "P x")
    case True
    then have "n = x" using Cons.prems by (simp add: first_node_def)
    then have "x # xs = [] @ n # xs \<and> P n \<and> (\<forall>m \<in> set []. \<not> P m)"
      using True by simp
    then show ?thesis by blast
  next
    case False
    then obtain pre post where "xs = pre @ n # post" "P n" "\<forall>m \<in> set pre. \<not> P m"
      using Cons by auto
    then have "x # xs = (x # pre) @ n # post \<and> P n \<and> (\<forall>m \<in> set (x # pre). \<not> P m)"
      using False by simp
    then show ?thesis by blast
  qed
qed

lemma first_node_in_document_order:
  "case first_node (get_elements_by_attribs t name v) of
     None \<Rightarrow> \<forall>n \<in> set (iter_nodes t). node_get n name \<noteq> Some v
   | Some n \<Rightarrow> \<exists>pre post. iter_nodes t = pre @ n # post \<and> node_get n name = Some v
                  \<and> (\<forall>m \<in> set pre. node_get m name \<noteq> Some v)"
proof (cases "first_node (get_elements_by_attribs t name v)")
  case None
  then have "\<forall>n \<in> set (iter_nodes t). node_get n name \<noteq> Some v"
    by (simp add: get_elements_by_attribs_def first_node_None)
  then show ?thesis using None by simp
next
  case (Some n)
  then show ?thesis
    using first_node_Some [of "\<lambda>n. node_get n name = Some v" "iter_nodes t" n]
    by (simp add: get_elements_by_attribs_def)
qed

lemma setstate_clean_views:
  "setstate E state = Inr a \<Longrightarrow> clean_doc a = None \<and> clean_top_node a = None"
  by (auto simp: setstate_def Let_def split: option.splits bool.splits)

lemma setstate_parsed:
  assumes "sn_parsed_state state = Some True" and "sn_doc_html state = Some s"
    and "fromstring E s = Some t"
  shows "\<exists>a. setstate E state = Inr a \<and> doc a = Some t
      \<and> top_node a = first_node (get_elements_by_attribs t ''__newspaper_top_node'' ''xxx'')
      \<and> top_node_complemented a
          = first_node (get_elements_by_attribs t ''__newspaper_top_node_complemented'' ''xxx'')"
  using assms by (auto simp: setstate_def Let_def split: option.splits)

lemma setstate_not_parsed:
  assumes "sn_parsed_state state = Some False"
  shows "\<exists>a. setstate E state = Inr a \<and> doc a = None \<and> top_node a = None
      \<and> top_node_complemented a = None"
  using assms by (simp add: setstate_def Let_def)


text \<open>
  Claim C8. Whenever \<open>__setstate__\<close> returns, \<open>clean_doc\<close> and \<open>clean_top_node\<close> are null,
  for every snapshot. A snapshot not taken in the parsed state restores with \<open>doc\<close>,
  \<open>top_node\<close> and the complemented node null. A snapshot taken in the parsed state, whose
  stored HTML parses to the tree \<open>t\<close>, restores without an exception with \<open>doc = t\<close>;
  \<open>top_node\<close> is the first node of \<open>t\<close> in document order that carries
  \<open>__newspaper_top_node = xxx\<close>, or null when no node of \<open>t\<close> carries it, and the
  complemented node is bound in the same way by \<open>__newspaper_top_node_complemented\<close>.
\<close>

theorem setstate_rebinds_first_sentinel:
  "(\<forall>a. setstate E state = Inr a \<longrightarrow> clean_doc a = None \<and> clean_top_node a = None)
   \<and> (sn_parsed_state state = Some False \<longrightarrow>
        (\<exists>a. setstate E state = Inr a \<and> doc a = None \<and> top_node a = None
           \<and> top_node_complemented a = None))
   \<and> (sn_parsed_state state = Some True \<and> sn_doc_html state = Some s \<and> fromstring E s = Some t
        \<longrightarrow>
        (\<exists>a. setstate E state = Inr a \<and> doc a = Some t
           \<and> clean_doc a = None \<and> clean_top_node a = None
           \<and> (case top_node a of
                 None \<Rightarrow> \<forall>n \<in> set (iter_nodes t).
                           node_get n ''__newspaper_top_node'' \<noteq> Some ''xxx''
               | Some n \<Rightarrow> \<exists>pre post. iter_nodes t = pre @ n # post
                    \<and> node_get n ''__newspaper_top_node'' = Some ''xxx''
                    \<and> (\<forall>m \<in> set pre. node_get m ''__newspaper_top_node'' \<noteq> Some ''xxx''))
           \<and> (case top_node_complemented a of
                 None \<Rightarrow> \<forall>n \<in> set (iter_nodes t).
                           node_get n ''__newspaper_top_node_complemented'' \<noteq> Some ''xxx''
               | Some n \<Rightarrow> \<exists>pre post. iter_nodes t = pre @ n # post
                    \<and> node_get n ''__newspaper_top_node_complemented'' = Some ''xxx''
                    \<and> (\<forall>m \<in> set pre.
                          node_get m ''__newspaper_top_node_complemented'' \<noteq> Some ''xxx''))))"
proof -
  have p: "\<exists>a. setstate E state = Inr a \<and> doc a = Some t
           \<and> clean_doc a = None \<and> clean_top_node a = None
           \<and> (case top_node a of
                 None \<Rightarrow> \<forall>n \<in> set (iter_nodes t).
                           node_get n ''__newspaper_top_node'' \<noteq> Some ''xxx''
               | Some n \<Rightarrow> \<exists>pre post. iter_nodes t = pre @ n # post
                    \<and> node_get n ''__newspaper_top_node'' = Some ''xxx''
                    \<and> (\<forall>m \<in> set pre. node_get m ''__newspaper_top_node'' \<noteq> Some ''xxx''))
           \<and> (case top_node_complemented a of
                 None \<Rightarrow> \<forall>n \<in> set (iter_nodes t).
                           node_get n ''__newspaper_top_node_complemented'' \<noteq> Some ''xxx''
               | Some n \<Rightarrow> \<exists>pre post. iter_nodes t = pre @ n # post
                    \<and> node_get n ''__newspaper_top_node_complemented'' = Some ''xxx''
                    \<and> (\<forall>m \<in> set pre.
                          node_get m ''__newspaper_top_node_complemented'' \<noteq> Some ''xxx''))"
    if h: "sn_parsed_state state = Some True" "sn_doc_html state = Some s"
      "fromstring E s = Some t"
  proof -
    obtain a where a: "setstate E state = Inr a" "doc a = Some t"
      "top_node a = first_node (get_elements_by_attribs t ''__newspaper_top_node'' ''xxx'')"
      "top_node_complemented a
         = first_node (get_elements_by_attribs t ''__newspaper_top_node_complemented'' ''xxx'')"
      using setstate_parsed [OF h] by blast
    show ?thesis
      using a setstate_clean_views [OF a(1)]
        first_node_in_document_order [of t "''__newspaper_top_node''" "''xxx''"]
        first_node_in_document_order [of t "''__newspaper_top_node_complemented''" "''xxx''"]
      by (intro exI [of _ a]) simp
  qed
  show ?thesis
    using p setstate_clean_views [of E state] setstate_not_parsed [of state E] by blast
qed

text \<open>The theorem on the example snapshot: of the three marked elements the outer
  \<open>div\<close> is bound, the complemented node stays null, and the handles the snapshot still
  held are gone.\<close>

theorem setstate_rebinds_first_sentinel_witness:
  "setstate (example_env\<lparr>fromstring := (\<lambda>h. Some example_doc_marked)\<rparr>) example_snapshot
     = Inr (example_article\<lparr>download_state := SUCCESS, is_parsed := True,
              doc := Some example_doc_marked,
              top_node := Some (Node ''div''
                [(''id'', ''outer''), (''__newspaper_top_node'', ''xxx'')]
                [Node ''p'' [(''__newspaper_top_node'', ''xxx'')] []])\<rparr>)
   \<and> (\<exists>a. setstate (example_env\<lparr>fromstring := (\<lambda>h. Some example_doc_marked)\<rparr>)
              example_snapshot = Inr a
         \<and> clean_doc a = None \<and> clean_top_node a = None \<and> top_node_complemented a = None)"
proof -
  let ?E = "example_env\<lparr>fromstring := (\<lambda>h. Some example_doc_marked)\<rparr>"
  have e: "setstate ?E example_snapshot
     = Inr (example_article\<lparr>download_state := SUCCESS, is_parsed := True,
              doc := Some example_doc_marked,
              top_node := Some (Node ''div''
                [(''id'', ''outer''), (''__newspaper_top_node'', ''xxx'')]
                [Node ''p'' [(''__newspaper_top_node'', ''xxx'')] []])\<rparr>)"
    by (simp add: setstate_def example_snapshot_def example_env_def example_doc_marked_def
        example_article_def set_title_def fresh_article_def get_elements_by_attribs_def
        first_node_def node_get_def Let_def)
  have "\<forall>a. setstate ?E example_snapshot = Inr a \<longrightarrow> clean_doc a = None \<and> clean_top_node a = None"
    using setstate_rebinds_first_sentinel [of ?E example_snapshot] by blast
  then show ?thesis
    using e by (simp add: example_article_def set_title_def fresh_article_def)
qed

end
